theory Spec2Isabelle
  imports Complex_Main
begin

section \<open>The HTTP client facade of \<^verbatim>\<open>src/httpc.c\<close>\<close>

text \<open>
  The request object of \<^verbatim>\<open>httpc.c\<close> is embedded as a record, and the functions that
  create, configure, start and finish a request, the streaming write and the engine
  callbacks as HOL functions that take the request and return it updated, next to the
  value the C function returns. (The option setters that only pass a value to the engine,
  \<^verbatim>\<open>httpc_set_body\<close> and \<^verbatim>\<open>httpc_request_io_read\<close> are not needed below and left out.)
  C strings are \<open>string\<close>s (without their terminating NUL).
  Values of type \<^verbatim>\<open>long\<close> and \<^verbatim>\<open>int\<close> are HOL integers; the two places where the width
  matters (the clamping of \<^verbatim>\<open>strtol\<close> and the cast \<^verbatim>\<open>(int) longval\<close>) are written out.
  The 64-bit statistics counters are naturals incremented modulo \<open>2 ^ 64\<close>.

  The transfer engine (libcurl and \<^verbatim>\<open>curl.c\<close>), the allocators and the fiber scheduler are
  not part of the file. What they decide (whether an allocation succeeds, what the engine
  reports, which callbacks run while the fiber is parked) is passed to the functions as
  arguments, so every theorem holds for all behaviours of these collaborators.
\<close>

subsection \<open>Constants and small C library functions\<close>

definition MAX_HEADER_LEN :: nat where
  "MAX_HEADER_LEN = 8192"

definition HTTP_ACCEPT_HEADER :: string where
  "HTTP_ACCEPT_HEADER = ''Accept:''"

definition HTTP_CONNECTION_HEADER :: string where
  "HTTP_CONNECTION_HEADER = ''Connection:''"

definition HTTP_CONTENT_LENGTH_HEADER :: string where
  "HTTP_CONTENT_LENGTH_HEADER = ''Content-Length:''"

definition HTTP_KEEP_ALIVE_HEADER :: string where
  "HTTP_KEEP_ALIVE_HEADER = ''Keep-Alive:''"

definition LONG_MAX :: int where
  "LONG_MAX = 2 ^ 63 - 1"

definition LONG_MIN :: int where
  "LONG_MIN = - (2 ^ 63)"

definition INT_MAX :: int where
  "INT_MAX = 2 ^ 31 - 1"

definition INT_MIN :: int where
  "INT_MIN = - (2 ^ 31)"

definition EINVAL :: int where
  "EINVAL = 22"

text \<open>The conversion \<^verbatim>\<open>(int) longval\<close>: the low 32 bits, read as two's complement.\<close>

definition int_of_long :: "int \<Rightarrow> int" where
  "int_of_long x = (x + 2 ^ 31) mod 2 ^ 32 - 2 ^ 31"

text \<open>\<^verbatim>\<open>++counter\<close> on a \<^verbatim>\<open>uint64_t\<close>.\<close>

definition incr64 :: "nat \<Rightarrow> nat" where
  "incr64 n = (n + 1) mod 2 ^ 64"

text \<open>\<^verbatim>\<open>tolower\<close> in the C locale: only the 26 ASCII capitals change.\<close>

definition tolower_c :: "char \<Rightarrow> char" where
  "tolower_c c =
     (case map_of (zip ''ABCDEFGHIJKLMNOPQRSTUVWXYZ'' ''abcdefghijklmnopqrstuvwxyz'') c of
        None \<Rightarrow> c
      | Some l \<Rightarrow> l)"

text \<open>
  \<^verbatim>\<open>strncasecmp(s, p, n) == 0\<close>: the first \<open>n\<close> bytes of both strings (fewer when a
  string ends earlier) agree up to the case of letters.
\<close>

definition strncasecmp_eq :: "string \<Rightarrow> string \<Rightarrow> nat \<Rightarrow> bool" where
  "strncasecmp_eq s p n = (map tolower_c (take n s) = map tolower_c (take n p))"

text \<open>
  \<^verbatim>\<open>strtol(nptr, &end, 10)\<close> of the C library (ISO C 7.22.1.4): white space is skipped,
  one sign is accepted, then the longest run of decimal digits is converted. Without any
  digit nothing is converted: the value is 0 and \<^verbatim>\<open>end\<close> is \<^verbatim>\<open>nptr\<close> itself. A value out
  of range is clamped to \<^verbatim>\<open>LONG_MIN\<close> or \<^verbatim>\<open>LONG_MAX\<close>. The result is the value and the
  rest of the string that \<^verbatim>\<open>end\<close> points to.
\<close>

definition isspace_c :: "char \<Rightarrow> bool" where
  "isspace_c c = (let n = (of_char c :: nat) in n = 32 \<or> (9 \<le> n \<and> n \<le> 13))"

definition isdigit_c :: "char \<Rightarrow> bool" where
  "isdigit_c c = (let n = (of_char c :: nat) in 48 \<le> n \<and> n \<le> 57)"

definition digits_value :: "string \<Rightarrow> nat" where
  "digits_value ds = foldl (\<lambda>acc c. 10 * acc + (of_char c - 48)) 0 ds"

definition strtol :: "string \<Rightarrow> int \<times> string" where
  "strtol nptr =
     (let t = dropWhile isspace_c nptr;
          neg = (case t of [] \<Rightarrow> False | c # _ \<Rightarrow> c = CHR ''-'');
          u = (case t of [] \<Rightarrow> [] | c # cs \<Rightarrow> if c = CHR ''-'' \<or> c = CHR ''+'' then cs else t);
          ds = takeWhile isdigit_c u
      in if ds = [] then (0, nptr)
         else let v = (if neg then - int (digits_value ds) else int (digits_value ds))
              in (max LONG_MIN (min LONG_MAX v), dropWhile isdigit_c u))"




subsection \<open>The data model\<close>

text \<open>
  Error kinds that the functions put into the diagnostics area before returning -1.
  \<open>SystemError\<close> carries the value of \<^verbatim>\<open>errno\<close> and the message. \<open>NotSetHere\<close> stands for a
  return of -1 on which \<^verbatim>\<open>httpc.c\<close> itself sets no error (a callee outside the file may have).
\<close>

datatype diag =
    IllegalParams string
  | OutOfMemory
  | TimedOut
  | FiberIsCancelled
  | SystemError int string
  | NotSetHere

text \<open>
  The terminal codes of the engine that \<^verbatim>\<open>httpc_request_finish\<close> tells apart;
  \<open>CURLE_OTHER\<close> stands for every other code. \<^verbatim>\<open>CURLE_SSL_CACERT\<close> is a code of its own
  before libcurl 7.62.0, where the \<^verbatim>\<open>switch\<close> has a case for it, and another name of
  \<^verbatim>\<open>CURLE_PEER_FAILED_VERIFICATION\<close> since; both ways it is classified like that code.
\<close>

datatype CURLcode =
    CURLE_OK
  | CURLE_SSL_CACERT
  | CURLE_PEER_FAILED_VERIFICATION
  | CURLE_OPERATION_TIMEDOUT
  | CURLE_GOT_NOTHING
  | CURLE_COULDNT_RESOLVE_PROXY
  | CURLE_COULDNT_RESOLVE_HOST
  | CURLE_COULDNT_CONNECT
  | CURLE_WRITE_ERROR
  | CURLE_BAD_CONTENT_ENCODING
  | CURLE_OUT_OF_MEMORY
  | CURLE_OTHER nat

datatype callback = Curl_easy_io_read_cb | Curl_easy_write_cb | Curl_easy_header_cb

datatype cond_id = Io_send_cond | Io_recv_cond

text \<open>
  The easy handle is the list of the calls made on it, oldest first: each
  \<^verbatim>\<open>curl_easy_setopt\<close> with its option and value, and \<^verbatim>\<open>curl_easy_pause\<close>.
\<close>

datatype curl_call =
    CURLOPT_HTTPGET int
  | CURLOPT_NOBODY int
  | CURLOPT_POST int
  | CURLOPT_POSTFIELDS string
  | CURLOPT_POSTFIELDSIZE int
  | CURLOPT_CUSTOMREQUEST string
  | CURLOPT_URL string
  | CURLOPT_FOLLOWLOCATION int
  | CURLOPT_SSL_VERIFYPEER int
  | CURLOPT_WRITEFUNCTION callback
  | CURLOPT_HEADERFUNCTION callback
  | CURLOPT_NOPROGRESS int
  | CURLOPT_NOSIGNAL int
  | CURLOPT_TCP_KEEPALIVE int
  | CURLOPT_TCP_KEEPIDLE int
  | CURLOPT_TCP_KEEPINTVL int
  | CURLOPT_READDATA
  | CURLOPT_READFUNCTION callback
  | CURLOPT_UPLOAD int
  | CURLOPT_INFILESIZE int
  | CURLOPT_WRITEDATA
  | CURLOPT_HEADERDATA
  | CURLOPT_PRIVATE
  | CURLOPT_HTTPHEADER "string list"
  | CURLPAUSE_SEND_CONT

text \<open>
  \<^verbatim>\<open>struct httpc_request\<close>, with the fields of its \<^verbatim>\<open>curl_request\<close> inlined (\<open>easy\<close>,
  \<open>in_progress\<close>, \<open>code\<close>, \<open>done_handler\<close>). The buffers hold their unread bytes. \<open>uploaded\<close>
  is not a field of the struct: it records the bytes that the engine has taken from the
  read callback, so that what reaches the wire can be stated.
\<close>

record httpc_request =
  easy :: "curl_call list"
  in_progress :: bool
  code :: CURLcode
  done_handler :: bool
  uploaded :: string
  headers :: "string list"
  send :: string
  recv :: string
  resp_headers :: string
  redirect_count :: int
  io :: bool
  io_recv :: string
  io_send :: bool
  io_send_closed :: bool
  io_headers_cond :: "cond_id option"
  content_length :: int
  keep_alive_timeout :: int
  set_accept_header :: bool
  set_connection_header :: bool
  set_keep_alive_header :: bool
  status :: int
  reason :: "string option"

text \<open>\<^verbatim>\<open>struct httpc_stat\<close>, the counters of the environment.\<close>

record httpc_stat =
  total_requests :: nat
  http_200_responses :: nat
  http_other_responses :: nat
  failed_requests :: nat

definition curl_easy_setopt :: "curl_call \<Rightarrow> httpc_request \<Rightarrow> httpc_request" where
  "curl_easy_setopt c req = req\<lparr>easy := easy req @ [c]\<rparr>"

subsection \<open>Creating a request\<close>

text \<open>The request after \<^verbatim>\<open>memset(req, 0, sizeof(*req))\<close>.\<close>

definition zeroed_request :: httpc_request where
  "zeroed_request =
     \<lparr>easy = [], in_progress = False, code = CURLE_OK, done_handler = False, uploaded = [],
      headers = [], send = [], recv = [], resp_headers = [], redirect_count = 0,
      io = False, io_recv = [], io_send = False, io_send_closed = False,
      io_headers_cond = None, content_length = 0, keep_alive_timeout = 0,
      set_accept_header = False, set_connection_header = False,
      set_keep_alive_header = False, status = 0, reason = None\<rparr>"

text \<open>
  \<^verbatim>\<open>httpc_request_new\<close>. \<open>pool_ok\<close> says that \<^verbatim>\<open>mempool_alloc\<close> returned memory, \<open>curl_ok\<close>
  that \<^verbatim>\<open>curl_request_create\<close> returned 0; the function returns NULL (\<open>None\<close>) otherwise.
  The third condition of the method test is \<^verbatim>\<open>strcmp(method, "PATCH")\<close> as the source has
  it, which is non-zero, hence true, when the method differs from \<^verbatim>\<open>"PATCH"\<close>.
\<close>

definition httpc_request_new :: "bool \<Rightarrow> bool \<Rightarrow> string \<Rightarrow> string \<Rightarrow> httpc_request option" where
  "httpc_request_new pool_ok curl_ok method url =
     (if \<not> pool_ok then None
      else let req0 = zeroed_request\<lparr>set_connection_header := True,
                                     set_keep_alive_header := True,
                                     content_length := - 1\<rparr>
      in if \<not> curl_ok then None
      else let req1 =
         (if method = ''GET'' then curl_easy_setopt (CURLOPT_HTTPGET 1) req0
          else if method = ''HEAD'' then curl_easy_setopt (CURLOPT_NOBODY 1) req0
          else if method = ''POST'' \<or> method = ''PUT'' \<or> method \<noteq> ''PATCH'' then
            (curl_easy_setopt (CURLOPT_CUSTOMREQUEST method)
              (curl_easy_setopt (CURLOPT_POSTFIELDSIZE 0)
                (curl_easy_setopt (CURLOPT_POSTFIELDS [])
                  (curl_easy_setopt (CURLOPT_POST 1) req0))))\<lparr>set_accept_header := True\<rparr>
          else curl_easy_setopt (CURLOPT_CUSTOMREQUEST method) req0)
      in Some
         ((curl_easy_setopt (CURLOPT_NOSIGNAL 1)
           (curl_easy_setopt (CURLOPT_NOPROGRESS 1)
             (curl_easy_setopt (CURLOPT_HEADERFUNCTION Curl_easy_header_cb)
               (curl_easy_setopt (CURLOPT_WRITEFUNCTION Curl_easy_write_cb)
                 (curl_easy_setopt (CURLOPT_SSL_VERIFYPEER 1)
                   (curl_easy_setopt (CURLOPT_FOLLOWLOCATION 1)
                     (curl_easy_setopt (CURLOPT_URL url) req1)))))))\<lparr>send := []\<rparr>))"

text \<open>
  The POST-shaped setup: \<^verbatim>\<open>CURLOPT_POST\<close> with empty POST fields of size 0, the custom
  verb, and the flag for the automatic \<^verbatim>\<open>Accept\<close> header.
\<close>

definition post_shaped :: "string \<Rightarrow> httpc_request \<Rightarrow> bool" where
  "post_shaped method req \<longleftrightarrow>
     take 4 (easy req) = [CURLOPT_POST 1, CURLOPT_POSTFIELDS [], CURLOPT_POSTFIELDSIZE 0,
                          CURLOPT_CUSTOMREQUEST method]
     \<and> set_accept_header req"

definition is_post_call :: "curl_call \<Rightarrow> bool" where
  "is_post_call c =
     (case c of CURLOPT_POST _ \<Rightarrow> True | CURLOPT_POSTFIELDS _ \<Rightarrow> True
      | CURLOPT_POSTFIELDSIZE _ \<Rightarrow> True | _ \<Rightarrow> False)"

text \<open>The other setup: the custom verb and none of the POST options, the flag not set.\<close>

definition custom_only :: "string \<Rightarrow> httpc_request \<Rightarrow> bool" where
  "custom_only method req \<longleftrightarrow>
     take 1 (easy req) = [CURLOPT_CUSTOMREQUEST method]
     \<and> filter is_post_call (easy req) = []
     \<and> \<not> set_accept_header req"

subsection \<open>Outgoing headers\<close>

text \<open>
  \<^verbatim>\<open>httpc_set_header\<close>. \<open>line\<close> is the header as \<^verbatim>\<open>vsnprintf\<close> formats it, so that \<^verbatim>\<open>rc\<close> is
  its length (an output error of \<^verbatim>\<open>vsnprintf\<close>, a negative \<^verbatim>\<open>rc\<close>, is not modelled);
  \<open>slist_ok\<close> says that \<^verbatim>\<open>curl_slist_append\<close> found memory. The result is the error put
  into the diagnostics area (return value -1) or \<open>Inr ()\<close> (return value 0), and the request
  as the call leaves it. The value of \<^verbatim>\<open>strtol\<close> is stored as it is.
\<close>

definition httpc_set_header ::
  "bool \<Rightarrow> string \<Rightarrow> httpc_request \<Rightarrow> (diag + unit) \<times> httpc_request" where
  "httpc_set_header slist_ok line req =
     (if length line > MAX_HEADER_LEN then (Inl (IllegalParams ''header is too large''), req)
      else
        case (if strncasecmp_eq line HTTP_ACCEPT_HEADER (length HTTP_ACCEPT_HEADER)
              then Inr (req\<lparr>set_accept_header := False\<rparr>)
              else if strncasecmp_eq line HTTP_CONNECTION_HEADER (length HTTP_CONNECTION_HEADER)
              then Inr (req\<lparr>set_connection_header := False\<rparr>)
              else if strncasecmp_eq line HTTP_CONTENT_LENGTH_HEADER
                        (length HTTP_CONTENT_LENGTH_HEADER)
              then (case strtol (drop (length HTTP_CONTENT_LENGTH_HEADER) line) of
                      (len, end) \<Rightarrow>
                        if end \<noteq> [] \<or> len < 0
                        then Inl (IllegalParams
                          ''Content-Length header value must be a non-negative integer'')
                        else Inr (req\<lparr>content_length := len\<rparr>))
              else if strncasecmp_eq line HTTP_KEEP_ALIVE_HEADER (length HTTP_KEEP_ALIVE_HEADER)
              then Inr (req\<lparr>set_keep_alive_header := False\<rparr>)
              else Inr req)
        of Inl e \<Rightarrow> (Inl e, req)
         | Inr req1 \<Rightarrow>
             if \<not> slist_ok then (Inl OutOfMemory, req1)
             else (Inr (), req1\<lparr>headers := headers req1 @ [line]\<rparr>))"


subsection \<open>Engine callbacks\<close>

text \<open>
  What a function can come to: a failed \<^verbatim>\<open>assert\<close> aborts the process, a fiber that is never
  woken stays parked, otherwise the function returns.
\<close>

datatype 'a outcome = Aborted | Parked | Returns 'a

text \<open>
  \<^verbatim>\<open>curl_easy_io_read_cb\<close>, with \<open>buffer_size = size * nitems\<close>. It returns the bytes copied
  into the engine's buffer (their number is the C return value, 0 for none) or the pause
  signal.
\<close>

datatype read_result = Read_bytes string | CURL_READFUNC_PAUSE

definition curl_easy_io_read_cb :: "nat \<Rightarrow> httpc_request \<Rightarrow> read_result \<times> httpc_request" where
  "curl_easy_io_read_cb buffer_size req =
     (let ibuf_len = length (send req)
      in if ibuf_len = 0 then
           (if io_send_closed req then (Read_bytes [], req) else (CURL_READFUNC_PAUSE, req))
         else
           let read_len = (if ibuf_len < buffer_size then ibuf_len else buffer_size)
           in (Read_bytes (take read_len (send req)), req\<lparr>send := drop read_len (send req)\<rparr>))"

text \<open>\<^verbatim>\<open>curl_easy_write_cb\<close>; \<open>alloc_ok\<close> says that \<^verbatim>\<open>region_alloc\<close> found memory.\<close>

definition curl_easy_write_cb :: "bool \<Rightarrow> string \<Rightarrow> httpc_request \<Rightarrow> nat \<times> httpc_request" where
  "curl_easy_write_cb alloc_ok ptr req =
     (if \<not> alloc_ok then (0, req) else (length ptr, req\<lparr>recv := recv req @ ptr\<rparr>))"

text \<open>
  \<^verbatim>\<open>curl_easy_header_cb\<close>. \<open>engine_redirect_count\<close> is what \<^verbatim>\<open>CURLINFO_REDIRECT_COUNT\<close>
  reports, \<open>ndebug\<close> says that the build compiles assertions out. \<open>None\<close> is the abort of
  the failed assertion. The sum \<^verbatim>\<open>req->redirect_count + 1\<close> is only computed below a larger
  \<^verbatim>\<open>long\<close>, so it cannot overflow.
\<close>

definition curl_easy_header_cb ::
  "bool \<Rightarrow> int \<Rightarrow> bool \<Rightarrow> string \<Rightarrow> httpc_request \<Rightarrow> (nat \<times> httpc_request) option" where
  "curl_easy_header_cb ndebug engine_redirect_count alloc_ok buffer req =
     (case (if engine_redirect_count > redirect_count req then
              (if \<not> ndebug \<and> engine_redirect_count \<noteq> redirect_count req + 1 then None
               else Some (req\<lparr>redirect_count := engine_redirect_count, resp_headers := []\<rparr>))
            else Some req)
      of None \<Rightarrow> None
       | Some req1 \<Rightarrow>
           if \<not> alloc_ok then Some (0, req1)
           else Some (length buffer, req1\<lparr>resp_headers := resp_headers req1 @ buffer\<rparr>))"

text \<open>\<^verbatim>\<open>httpc_curl_done_handler\<close>; the two broadcasts wake the fibers parked on the request.\<close>

definition httpc_curl_done_handler :: "httpc_request \<Rightarrow> httpc_request" where
  "httpc_curl_done_handler req = req\<lparr>io_send_closed := True\<rparr>"

text \<open>
  Modelled from the spec: the transfer engine (libcurl and \<^verbatim>\<open>curl.c\<close>, not in this file).
  While the calling fiber is parked the engine runs callbacks on the request: the read
  callback with some buffer size, the write callback on body bytes, the header callback on
  header bytes together with the redirect count it reports at that moment, and at the
  end of the transfer it stores the terminal code, clears \<open>in_progress\<close> and invokes the
  done handler if one is registered. The bytes the read callback hands over are the ones
  that reach the wire.
\<close>

datatype engine_event =
    Read_cb nat
  | Write_cb bool string
  | Header_cb int bool string
  | Transfer_done CURLcode

definition engine_step :: "bool \<Rightarrow> engine_event \<Rightarrow> httpc_request \<Rightarrow> httpc_request option" where
  "engine_step ndebug ev req =
     (case ev of
        Read_cb n \<Rightarrow>
          (case curl_easy_io_read_cb n req of
             (Read_bytes bs, req1) \<Rightarrow> Some (req1\<lparr>uploaded := uploaded req1 @ bs\<rparr>)
           | (CURL_READFUNC_PAUSE, req1) \<Rightarrow> Some req1)
      | Write_cb alloc_ok ptr \<Rightarrow> Some (snd (curl_easy_write_cb alloc_ok ptr req))
      | Header_cb rc alloc_ok buffer \<Rightarrow>
          map_option snd (curl_easy_header_cb ndebug rc alloc_ok buffer req)
      | Transfer_done c \<Rightarrow>
          (let req1 = req\<lparr>code := c, in_progress := False\<rparr>
           in Some (if done_handler req1 then httpc_curl_done_handler req1 else req1)))"

fun run_events :: "bool \<Rightarrow> engine_event list \<Rightarrow> httpc_request \<Rightarrow> httpc_request option" where
  "run_events ndebug [] req = Some req"
| "run_events ndebug (ev # evs) req =
     (case engine_step ndebug ev req of
        None \<Rightarrow> None
      | Some req1 \<Rightarrow> run_events ndebug evs req1)"

text \<open>The header callbacks among the events: redirect count, allocation flag, bytes.\<close>

fun header_events :: "engine_event list \<Rightarrow> (int \<times> bool \<times> string) list" where
  "header_events [] = []"
| "header_events (Header_cb rc alloc_ok buffer # evs) = (rc, alloc_ok, buffer) # header_events evs"
| "header_events (_ # evs) = header_events evs"


text \<open>
  The assumption of the assertion: the engine's redirect count starts at 0 and no header
  callback sees it more than one above what the previous one saw.
\<close>

fun advances_by_at_most_one :: "int \<Rightarrow> int list \<Rightarrow> bool" where
  "advances_by_at_most_one prev [] = True"
| "advances_by_at_most_one prev (rc # rcs) = (rc \<le> prev + 1 \<and> advances_by_at_most_one rc rcs)"

text \<open>
  Modelled from the spec: the condition variables of the fiber library (not in this file).
  A wait parks the fiber; meanwhile the engine runs the given events; the fiber is then
  woken by a signal, by the deadline or by cancellation. \<^verbatim>\<open>fiber_cond_wait_deadline\<close> and
  \<^verbatim>\<open>fiber_cond_wait_timeout\<close> return 0 after a signal and -1 with \<open>TimedOut\<close> or
  \<open>FiberIsCancelled\<close> set otherwise.
\<close>

datatype wake = Woken | Deadline | Cancelled

type_synonym wait = "engine_event list \<times> wake"

definition fiber_cond_wait_deadline ::
  "bool \<Rightarrow> wait \<Rightarrow> httpc_request \<Rightarrow> (diag option \<times> httpc_request) outcome" where
  "fiber_cond_wait_deadline ndebug w req =
     (case run_events ndebug (fst w) req of
        None \<Rightarrow> Aborted
      | Some req1 \<Rightarrow>
          Returns ((case snd w of Woken \<Rightarrow> None | Deadline \<Rightarrow> Some TimedOut
                    | Cancelled \<Rightarrow> Some FiberIsCancelled), req1))"

subsection \<open>Streaming mode\<close>

text \<open>\<^verbatim>\<open>httpc_set_io\<close>.\<close>

definition httpc_set_io :: "string \<Rightarrow> httpc_request \<Rightarrow> (diag + unit) \<times> httpc_request" where
  "httpc_set_io method req =
     (if io req then (Inl (IllegalParams ''io: request is already io''), req)
      else
        let req1 = req\<lparr>io := True, io_recv := []\<rparr>;
            req2 =
              (if method = ''POST'' \<or> method = ''PUT'' \<or> method = ''PATCH'' then
                 let r = curl_easy_setopt (CURLOPT_UPLOAD 1)
                           (curl_easy_setopt (CURLOPT_READFUNCTION Curl_easy_io_read_cb)
                             (curl_easy_setopt CURLOPT_READDATA req1));
                     r' = (if content_length r \<ge> 0
                           then curl_easy_setopt (CURLOPT_INFILESIZE (content_length r)) r
                           else r)
                 in r'\<lparr>io_send := True, io_send_closed := False,
                       io_headers_cond := Some Io_send_cond\<rparr>
               else req1\<lparr>io_send := False, io_send_closed := True,
                          io_headers_cond := Some Io_recv_cond\<rparr>)
        in (Inr (), req2\<lparr>done_handler := True\<rparr>))"

text \<open>
  The loop of \<^verbatim>\<open>httpc_request_io_write\<close> that waits for \<open>send\<close> to drain. \<open>ws\<close> are the
  waits to come; each round takes two, the first for \<^verbatim>\<open>fiber_cond_wait_deadline\<close>, the
  second for \<^verbatim>\<open>fiber_cond_wait\<close>, whose return value the source ignores. It yields the
  error of a failed deadline wait if any, the request, and the waits not used. \<open>ws\<close> lists
  all the wake-ups the fiber will get: where the code waits and none is left, the fiber is
  never woken and the call does not return (\<open>Parked\<close>).
\<close>

fun io_write_drain ::
  "bool \<Rightarrow> real \<Rightarrow> wait list \<Rightarrow> httpc_request
   \<Rightarrow> (diag option \<times> httpc_request \<times> wait list) outcome" where
  "io_write_drain ndebug timeout [] req =
     (if in_progress req \<and> send req \<noteq> [] \<and> timeout > 0 then Parked
      else Returns (None, req, []))"
| "io_write_drain ndebug timeout [w1] req =
     (if in_progress req \<and> send req \<noteq> [] \<and> timeout > 0 then
        (case fiber_cond_wait_deadline ndebug w1 req of
           Aborted \<Rightarrow> Aborted
         | Parked \<Rightarrow> Parked
         | Returns (Some d, req1) \<Rightarrow> Returns (Some d, req1, [])
         | Returns (None, req1) \<Rightarrow> Parked)
      else Returns (None, req, [w1]))"
| "io_write_drain ndebug timeout (w1 # w2 # ws) req =
     (if in_progress req \<and> send req \<noteq> [] \<and> timeout > 0 then
        (case fiber_cond_wait_deadline ndebug w1 req of
           Aborted \<Rightarrow> Aborted
         | Parked \<Rightarrow> Parked
         | Returns (Some d, req1) \<Rightarrow> Returns (Some d, req1, w2 # ws)
         | Returns (None, req1) \<Rightarrow>
             (case run_events ndebug (fst w2) req1 of
                None \<Rightarrow> Aborted
              | Some req2 \<Rightarrow> io_write_drain ndebug timeout ws req2))
      else Returns (None, req, w1 # w2 # ws))"

text \<open>
  \<^verbatim>\<open>httpc_request_io_write\<close>. \<open>ptr\<close> are the \<open>len\<close> bytes to write, empty for the closing
  call with \<open>len = 0\<close>. The result is the error (return value -1) or the number returned.
  The source does not check the result of \<^verbatim>\<open>ibuf_alloc\<close>; the copy into \<open>send\<close> is taken
  to succeed. \<^verbatim>\<open>curl_easy_pause\<close> is recorded on the easy handle; what the engine does on
  it happens in the wait that follows.
\<close>

definition httpc_request_io_write ::
  "bool \<Rightarrow> wait list \<Rightarrow> string \<Rightarrow> real \<Rightarrow> httpc_request
   \<Rightarrow> ((diag + nat) \<times> httpc_request) outcome" where
  "httpc_request_io_write ndebug ws ptr timeout req =
     (let len = length ptr in
      if \<not> io req then Returns (Inl (IllegalParams ''io: request must be io''), req)
      else if \<not> io_send req then
        Returns (Inl (IllegalParams ''io: HTTP request method with no body to send''), req)
      else if \<not> in_progress req \<or> io_send_closed req then Returns (Inr 0, req)
      else
        case io_write_drain ndebug timeout ws req of
          Aborted \<Rightarrow> Aborted
        | Parked \<Rightarrow> Parked
        | Returns (Some d, req1, ws1) \<Rightarrow> Returns (Inl d, req1)
        | Returns (None, req1, ws1) \<Rightarrow>
            if send req1 \<noteq> [] then
              (if in_progress req1 then Returns (Inl TimedOut, req1) else Returns (Inr 0, req1))
            else
              let req2 = (if len > 0 then req1\<lparr>send := ptr\<rparr>
                          else req1\<lparr>io_send_closed := True\<rparr>);
                  req3 = curl_easy_setopt CURLPAUSE_SEND_CONT req2
              in case ws1 of
                   [] \<Rightarrow> Parked
                 | w # _ \<Rightarrow>
                     (case fiber_cond_wait_deadline ndebug w req3 of
                        Aborted \<Rightarrow> Aborted
                      | Parked \<Rightarrow> Parked
                      | Returns (_, req4) \<Rightarrow>
                          if send req4 \<noteq> [] then Returns (Inr 0, req4\<lparr>send := []\<rparr>)
                          else Returns (Inr len, req4)))"

subsection \<open>Finishing and starting a request\<close>

text \<open>
  What the collaborators of \<^verbatim>\<open>httpc_request_finish\<close> report: the events the engine runs
  while \<^verbatim>\<open>curl_request_finish\<close> waits, whether that call returns \<^verbatim>\<open>CURLM_OK\<close>, whether the
  error injection \<^verbatim>\<open>ERRINJ_HTTPC_EXECUTE\<close> is armed, the terminal code, and the values of
  \<^verbatim>\<open>CURLINFO_RESPONSE_CODE\<close> and \<^verbatim>\<open>CURLINFO_OS_ERRNO\<close>.
\<close>

record finish_env =
  finish_events :: "engine_event list"
  multi_ok :: bool
  errinj :: bool
  terminal_code :: CURLcode
  response_code :: int
  os_errno :: int

text \<open>
  Modelled from the spec: \<^verbatim>\<open>curl_request_finish\<close> of \<^verbatim>\<open>curl.c\<close> (not in this file) blocks
  the task until the engine marks the request complete or the timeout elapses; the
  terminal code is then in \<^verbatim>\<open>curl_request.code\<close>. \<open>None\<close> is an abort in a callback.
\<close>

definition curl_request_finish ::
  "bool \<Rightarrow> finish_env \<Rightarrow> httpc_request \<Rightarrow> (bool \<times> httpc_request) option" where
  "curl_request_finish ndebug fe req =
     (case run_events ndebug (finish_events fe) req of
        None \<Rightarrow> None
      | Some req1 \<Rightarrow>
          if multi_ok fe then Some (True, req1\<lparr>code := terminal_code fe, in_progress := False\<rparr>)
          else Some (False, req1))"

text \<open>
  The block shared by the classified failures of \<^verbatim>\<open>httpc_request_finish\<close>:
  \<^verbatim>\<open>req->status = n; req->reason = curl_easy_strerror(code); ++env->stat.failed_requests\<close>.
\<close>

definition classified ::
  "(CURLcode \<Rightarrow> string) \<Rightarrow> int \<Rightarrow> httpc_stat \<Rightarrow> httpc_request
   \<Rightarrow> (diag + unit) \<times> httpc_stat \<times> httpc_request" where
  "classified strerror n st req =
     (Inr (), st\<lparr>failed_requests := incr64 (failed_requests st)\<rparr>,
      req\<lparr>status := n, reason := Some (strerror (code req))\<rparr>)"

text \<open>
  \<^verbatim>\<open>httpc_request_finish\<close>. \<open>strerror\<close> is \<^verbatim>\<open>curl_easy_strerror\<close>. The statistics of the
  environment are passed and returned beside the request. In the last branch the \<^verbatim>\<open>long\<close>
  \<^verbatim>\<open>longval ? longval : EINVAL\<close> is assigned to \<^verbatim>\<open>errno\<close>, an \<^verbatim>\<open>int\<close>, so it is
  converted; the \<open>SystemError\<close> carries the converted value.
\<close>

definition httpc_request_finish ::
  "bool \<Rightarrow> (CURLcode \<Rightarrow> string) \<Rightarrow> finish_env \<Rightarrow> httpc_stat \<Rightarrow> httpc_request
   \<Rightarrow> ((diag + unit) \<times> httpc_stat \<times> httpc_request) outcome" where
  "httpc_request_finish ndebug strerror fe st req0 =
     (case curl_request_finish ndebug fe req0 of
        None \<Rightarrow> Aborted
      | Some (False, req) \<Rightarrow> Returns (Inl NotSetHere, st, req)
      | Some (True, req) \<Rightarrow>
          if errinj fe then Returns (Inl NotSetHere, st, req)
          else Returns
            (case code req of
               CURLE_OK \<Rightarrow>
                 (let req1 = req\<lparr>status := int_of_long (response_code fe)\<rparr>;
                      req2 = (if status req1 \<ge> 100 \<and> status req1 < 400
                              then req1\<lparr>reason := Some ''Ok''\<rparr>
                              else req1\<lparr>reason := Some ''Unknown''\<rparr>)
                  in if status req2 = 200
                     then (Inr (), st\<lparr>http_200_responses := incr64 (http_200_responses st)\<rparr>, req2)
                     else (Inr (), st\<lparr>http_other_responses := incr64 (http_other_responses st)\<rparr>,
                           req2))
             | CURLE_SSL_CACERT \<Rightarrow> classified strerror 495 st req
             | CURLE_PEER_FAILED_VERIFICATION \<Rightarrow> classified strerror 495 st req
             | CURLE_OPERATION_TIMEDOUT \<Rightarrow> classified strerror 408 st req
             | CURLE_GOT_NOTHING \<Rightarrow> classified strerror 444 st req
             | CURLE_COULDNT_RESOLVE_PROXY \<Rightarrow> classified strerror 595 st req
             | CURLE_COULDNT_RESOLVE_HOST \<Rightarrow> classified strerror 595 st req
             | CURLE_COULDNT_CONNECT \<Rightarrow> classified strerror 595 st req
             | CURLE_WRITE_ERROR \<Rightarrow> classified strerror 595 st req
             | CURLE_BAD_CONTENT_ENCODING \<Rightarrow> classified strerror 595 st req
             | CURLE_OUT_OF_MEMORY \<Rightarrow>
                 (Inl OutOfMemory, st\<lparr>failed_requests := incr64 (failed_requests st)\<rparr>, req)
             | CURLE_OTHER n \<Rightarrow>
                 (Inl (SystemError
                         (int_of_long (if os_errno fe \<noteq> 0 then os_errno fe else EINVAL))
                         (''curl: '' @ strerror (code req))),
                  st\<lparr>failed_requests := incr64 (failed_requests st)\<rparr>, req)))"









subsection \<open>Values and predicates for the statements\<close>

text \<open>
  A quiet environment of \<^verbatim>\<open>httpc_request_finish\<close> that reports the given terminal code and
  response code, an error text for \<^verbatim>\<open>curl_easy_strerror\<close>, and the counters after one
  started request.
\<close>

definition quiet_finish :: "CURLcode \<Rightarrow> int \<Rightarrow> finish_env" where
  "quiet_finish c n =
     \<lparr>finish_events = [], multi_ok = True, errinj = False, terminal_code = c,
      response_code = n, os_errno = 0\<rparr>"

definition engine_error :: "CURLcode \<Rightarrow> string" where
  "engine_error c = ''engine error''"

definition one_started :: httpc_stat where
  "one_started =
     \<lparr>total_requests = 1, http_200_responses = 0, http_other_responses = 0,
      failed_requests = 0\<rparr>"

text \<open>A request as \<^verbatim>\<open>httpc_request_new\<close> creates it, and the value a function returns.\<close>

definition fresh_request :: "string \<Rightarrow> httpc_request" where
  "fresh_request method = the (httpc_request_new True True method ''http://host/'')"

definition returned :: "'a outcome \<Rightarrow> 'a option" where
  "returned x = (case x of Returns v \<Rightarrow> Some v | _ \<Rightarrow> None)"

text \<open>
  A streaming PUT after \<^verbatim>\<open>httpc_set_io\<close>, with its transfer in progress and the upload open.
\<close>

definition uploading_request :: httpc_request where
  "uploading_request = (snd (httpc_set_io ''PUT'' (fresh_request ''PUT'')))\<lparr>in_progress := True\<rparr>"

text \<open>
  The header and body callbacks of a GET that is redirected once: two header lines of the
  intermediate response, two of the final one, the body, the end of the transfer.
\<close>

definition redirected_transfer :: "engine_event list" where
  "redirected_transfer =
     [Header_cb 0 True ''HTTP/1.1 301 Moved;'', Header_cb 0 True ''Location: /final;'',
      Header_cb 1 True ''HTTP/1.1 200 OK;'', Header_cb 1 True ''Content-Length: 5;'',
      Write_cb True ''hello'', Transfer_done CURLE_OK]"

text \<open>
  \<^verbatim>\<open>httpc_request_io_write\<close> gets past its entry checks: the request streams, its method
  has a body, the transfer is in progress and the upload is not closed.
\<close>

definition upload_open :: "httpc_request \<Rightarrow> bool" where
  "upload_open req \<longleftrightarrow> io req \<and> io_send req \<and> in_progress req \<and> \<not> io_send_closed req"




text \<open>Counters of an environment that has finished nine requests.\<close>

definition nine_finished :: httpc_stat where
  "nine_finished =
     \<lparr>total_requests = 9, http_200_responses = 4, http_other_responses = 3,
      failed_requests = 2\<rparr>"

section \<open>Theorems\<close>

text \<open>
  C1. The claim says that exactly POST, PUT and PATCH get the POST-shaped setup and
  every other method only \<^verbatim>\<open>CURLOPT_CUSTOMREQUEST\<close>. The code does otherwise: DELETE gets
  the POST-shaped setup with the flag \<open>set_accept_header\<close>, and PATCH gets only the
  custom verb, without the flag.
\<close>

theorem httpc_request_new_delete_and_patch:
  "map_option (post_shaped ''DELETE'') (httpc_request_new True True ''DELETE'' ''http://host/'') = Some True
   \<and> map_option (post_shaped ''PATCH'') (httpc_request_new True True ''PATCH'' ''http://host/'') = Some False
   \<and> map_option (custom_only ''PATCH'') (httpc_request_new True True ''PATCH'' ''http://host/'') = Some True"
  by (simp add: httpc_request_new_def post_shaped_def custom_only_def is_post_call_def
      curl_easy_setopt_def zeroed_request_def)

subsection \<open>Outgoing headers: length bound and \<^verbatim>\<open>Content-Length\<close>\<close>

lemmas set_header_defs = httpc_set_header_def strncasecmp_eq_def tolower_c_def strtol_def
  isspace_c_def isdigit_c_def digits_value_def HTTP_ACCEPT_HEADER_def HTTP_CONNECTION_HEADER_def
  HTTP_CONTENT_LENGTH_HEADER_def HTTP_KEEP_ALIVE_HEADER_def MAX_HEADER_LEN_def LONG_MAX_def
  LONG_MIN_def




text \<open>
  C4. The claim says that a \<^verbatim>\<open>Content-Length\<close> value that is not a non-negative integer is
  rejected with \<open>IllegalParams\<close> and that a valid value \<open>N\<close> is stored as it is. The code
  misses two cases of \<^verbatim>\<open>strtol\<close>: for the empty value nothing is converted, \<^verbatim>\<open>end\<close> stays
  at the terminating NUL, and the call succeeds with \<open>content_length = 0\<close>; a value above
  \<^verbatim>\<open>LONG_MAX\<close> is clamped, and the call succeeds with \<open>content_length = LONG_MAX\<close>.
\<close>

theorem httpc_set_header_content_length_unchecked:
  "httpc_set_header True ''Content-Length:'' req =
     (Inr (), req\<lparr>content_length := 0, headers := headers req @ [''Content-Length:'']\<rparr>)
   \<and> httpc_set_header True ''Content-Length: 9223372036854775808'' req =
     (Inr (), req\<lparr>content_length := 9223372036854775807,
                   headers := headers req @ [''Content-Length: 9223372036854775808'']\<rparr>)"
  by (simp add: set_header_defs)

theorem httpc_set_header_content_length_unchecked_witness:
  "fst (httpc_set_header True ''Content-Length:'' (fresh_request ''PUT'')) = Inr ()
   \<and> content_length (fresh_request ''PUT'') = - 1
   \<and> content_length (snd (httpc_set_header True ''Content-Length:'' (fresh_request ''PUT''))) = 0
   \<and> fst (httpc_set_header True ''Content-Length: 9223372036854775808'' (fresh_request ''PUT''))
       = Inr ()
   \<and> content_length (snd (httpc_set_header True ''Content-Length: 9223372036854775808''
                            (fresh_request ''PUT''))) = LONG_MAX"
  using httpc_set_header_content_length_unchecked [of "fresh_request ''PUT''"]
  by (simp add: fresh_request_def httpc_request_new_def curl_easy_setopt_def zeroed_request_def
      LONG_MAX_def)




subsection \<open>Classification of the completed transfer\<close>

lemma int_of_long_id: "INT_MIN \<le> x \<Longrightarrow> x \<le> INT_MAX \<Longrightarrow> int_of_long x = x"
  by (simp add: int_of_long_def INT_MIN_def INT_MAX_def)

text \<open>
  C3. When \<^verbatim>\<open>httpc_request_finish\<close> gets to the terminal code of the engine (the wait
  returned \<^verbatim>\<open>CURLM_OK\<close>, no error injection): code OK sets the status to the engine's
  response code converted to \<^verbatim>\<open>int\<close> (the same number when it fits), the reason to "Ok"
  exactly when the status is in [100, 400) and to "Unknown" otherwise, and adds one (modulo
  \<open>2 ^ 64\<close>) to \<open>http_200\<close> when the status is 200 and to \<open>http_other\<close> otherwise; peer
  verification failure gives 495, timeout 408, no response 444, resolve, connect, write and
  encoding errors 595, each with the engine's error string as reason and one added to
  \<open>failed\<close>; out of memory returns the \<open>OutOfMemory\<close> error and every other code a
  \<open>SystemError\<close>, both with one added to \<open>failed\<close>. The \<open>SystemError\<close> carries as
  \<^verbatim>\<open>errno\<close> the engine's OS error number converted to \<^verbatim>\<open>int\<close> (the same number when it
  fits), and \<^verbatim>\<open>EINVAL\<close> = 22 when the engine reports 0. No other counter changes.
\<close>

theorem httpc_request_finish_classification:
  assumes "run_events nd (finish_events fe) req0 \<noteq> None" and "multi_ok fe" and "\<not> errinj fe"
  shows "case httpc_request_finish nd strerror fe st req0 of
           Returns (res, st', req') \<Rightarrow>
             (terminal_code fe = CURLE_OK \<longrightarrow>
                res = Inr () \<and> status req' = int_of_long (response_code fe)
                \<and> (INT_MIN \<le> response_code fe \<and> response_code fe \<le> INT_MAX \<longrightarrow>
                     status req' = response_code fe)
                \<and> (reason req' = Some ''Ok'' \<longleftrightarrow> 100 \<le> status req' \<and> status req' < 400)
                \<and> (reason req' = Some ''Unknown'' \<longleftrightarrow> \<not> (100 \<le> status req' \<and> status req' < 400))
                \<and> (status req' = 200 \<longrightarrow>
                     st' = st\<lparr>http_200_responses := (http_200_responses st + 1) mod 2 ^ 64\<rparr>)
                \<and> (status req' \<noteq> 200 \<longrightarrow>
                     st' = st\<lparr>http_other_responses := (http_other_responses st + 1) mod 2 ^ 64\<rparr>))
             \<and> (terminal_code fe \<in> {CURLE_PEER_FAILED_VERIFICATION, CURLE_SSL_CACERT} \<longrightarrow>
                  res = Inr () \<and> status req' = 495
                  \<and> reason req' = Some (strerror (terminal_code fe))
                  \<and> st' = st\<lparr>failed_requests := (failed_requests st + 1) mod 2 ^ 64\<rparr>)
             \<and> (terminal_code fe = CURLE_OPERATION_TIMEDOUT \<longrightarrow>
                  res = Inr () \<and> status req' = 408
                  \<and> reason req' = Some (strerror (terminal_code fe))
                  \<and> st' = st\<lparr>failed_requests := (failed_requests st + 1) mod 2 ^ 64\<rparr>)
             \<and> (terminal_code fe = CURLE_GOT_NOTHING \<longrightarrow>
                  res = Inr () \<and> status req' = 444
                  \<and> reason req' = Some (strerror (terminal_code fe))
                  \<and> st' = st\<lparr>failed_requests := (failed_requests st + 1) mod 2 ^ 64\<rparr>)
             \<and> (terminal_code fe \<in> {CURLE_COULDNT_RESOLVE_PROXY, CURLE_COULDNT_RESOLVE_HOST,
                    CURLE_COULDNT_CONNECT, CURLE_WRITE_ERROR, CURLE_BAD_CONTENT_ENCODING} \<longrightarrow>
                  res = Inr () \<and> status req' = 595
                  \<and> reason req' = Some (strerror (terminal_code fe))
                  \<and> st' = st\<lparr>failed_requests := (failed_requests st + 1) mod 2 ^ 64\<rparr>)
             \<and> (terminal_code fe = CURLE_OUT_OF_MEMORY \<longrightarrow>
                  res = Inl OutOfMemory
                  \<and> st' = st\<lparr>failed_requests := (failed_requests st + 1) mod 2 ^ 64\<rparr>)
             \<and> (\<forall>n. terminal_code fe = CURLE_OTHER n \<longrightarrow>
                  res = Inl (SystemError
                               (int_of_long (if os_errno fe \<noteq> 0 then os_errno fe else 22))
                               (''curl: '' @ strerror (terminal_code fe)))
                  \<and> (os_errno fe = 0 \<longrightarrow>
                        res = Inl (SystemError 22 (''curl: '' @ strerror (terminal_code fe))))
                  \<and> (os_errno fe \<noteq> 0 \<and> INT_MIN \<le> os_errno fe \<and> os_errno fe \<le> INT_MAX \<longrightarrow>
                        res = Inl (SystemError (os_errno fe)
                                     (''curl: '' @ strerror (terminal_code fe))))
                  \<and> st' = st\<lparr>failed_requests := (failed_requests st + 1) mod 2 ^ 64\<rparr>)
         | _ \<Rightarrow> False"
proof -
  from assms(1) obtain req1 where r: "run_events nd (finish_events fe) req0 = Some req1"
    by blast
  have einval: "int_of_long 22 = 22"
    by (simp add: int_of_long_def)
  show ?thesis
    using assms(2,3) r
    by (cases "terminal_code fe")
       (auto simp add: httpc_request_finish_def curl_request_finish_def classified_def
          incr64_def EINVAL_def Let_def int_of_long_id einval)
qed

lemmas finish_eval = httpc_request_finish_def curl_request_finish_def classified_def
  int_of_long_def incr64_def EINVAL_def zeroed_request_def
  quiet_finish_def engine_error_def one_started_def nine_finished_def

theorem httpc_request_finish_classification_witness:
  "returned (httpc_request_finish False engine_error (quiet_finish CURLE_OK 200) nine_finished
              zeroed_request)
     = Some (Inr (), nine_finished\<lparr>http_200_responses := 5\<rparr>,
             zeroed_request\<lparr>status := 200, reason := Some ''Ok''\<rparr>)
   \<and> returned (httpc_request_finish False engine_error (quiet_finish CURLE_OK 404) nine_finished
              zeroed_request)
     = Some (Inr (), nine_finished\<lparr>http_other_responses := 4\<rparr>,
             zeroed_request\<lparr>status := 404, reason := Some ''Unknown''\<rparr>)
   \<and> returned (httpc_request_finish False engine_error (quiet_finish CURLE_COULDNT_CONNECT 0)
              nine_finished zeroed_request)
     = Some (Inr (), nine_finished\<lparr>failed_requests := 3\<rparr>,
             zeroed_request\<lparr>code := CURLE_COULDNT_CONNECT, status := 595,
                              reason := Some ''engine error''\<rparr>)
   \<and> returned (httpc_request_finish False engine_error (quiet_finish CURLE_OPERATION_TIMEDOUT 0)
              (nine_finished\<lparr>failed_requests := 18446744073709551615\<rparr>) zeroed_request)
     = Some (Inr (), nine_finished\<lparr>failed_requests := 0\<rparr>,
             zeroed_request\<lparr>code := CURLE_OPERATION_TIMEDOUT, status := 408,
                              reason := Some ''engine error''\<rparr>)
   \<and> returned (httpc_request_finish False engine_error (quiet_finish CURLE_OUT_OF_MEMORY 0)
              nine_finished zeroed_request)
     = Some (Inl OutOfMemory, nine_finished\<lparr>failed_requests := 3\<rparr>,
             zeroed_request\<lparr>code := CURLE_OUT_OF_MEMORY\<rparr>)
   \<and> returned (httpc_request_finish False engine_error (quiet_finish (CURLE_OTHER 3) 0)
              nine_finished zeroed_request)
     = Some (Inl (SystemError 22 ''curl: engine error''), nine_finished\<lparr>failed_requests := 3\<rparr>,
             zeroed_request\<lparr>code := CURLE_OTHER 3\<rparr>)
   \<and> returned (httpc_request_finish False engine_error
              ((quiet_finish (CURLE_OTHER 3) 0)\<lparr>os_errno := 111\<rparr>) nine_finished zeroed_request)
     = Some (Inl (SystemError 111 ''curl: engine error''), nine_finished\<lparr>failed_requests := 3\<rparr>,
             zeroed_request\<lparr>code := CURLE_OTHER 3\<rparr>)
   \<and> returned (httpc_request_finish False engine_error
              ((quiet_finish (CURLE_OTHER 3) 0)\<lparr>os_errno := 4294967296\<rparr>) nine_finished
              zeroed_request)
     = Some (Inl (SystemError 0 ''curl: engine error''), nine_finished\<lparr>failed_requests := 3\<rparr>,
             zeroed_request\<lparr>code := CURLE_OTHER 3\<rparr>)"
  using
    httpc_request_finish_classification [where nd = False and fe = "quiet_finish CURLE_OK 200"
      and ?req0.0 = zeroed_request and strerror = engine_error and st = nine_finished]
    httpc_request_finish_classification [where nd = False
      and fe = "quiet_finish CURLE_COULDNT_CONNECT 0"
      and ?req0.0 = zeroed_request and strerror = engine_error and st = nine_finished]
    httpc_request_finish_classification [where nd = False
      and fe = "(quiet_finish (CURLE_OTHER 3) 0)\<lparr>os_errno := 4294967296\<rparr>"
      and ?req0.0 = zeroed_request and strerror = engine_error and st = nine_finished]
  by (simp add: finish_eval returned_def)

text \<open>
  C6, as stated, fails: the engine ends a GET with code OK and response code 999, and
  \<^verbatim>\<open>httpc_request_finish\<close> returns success with status 999, outside [100, 599].
\<close>

theorem httpc_request_finish_status_999:
  "httpc_request_new True True ''GET'' ''http://host/'' = Some (fresh_request ''GET'')
   \<and> map_option fst (returned (httpc_request_finish False engine_error
          (quiet_finish CURLE_OK 999) one_started (fresh_request ''GET''))) = Some (Inr ())
   \<and> map_option (\<lambda>(res, st', req'). status req') (returned (httpc_request_finish False
          engine_error (quiet_finish CURLE_OK 999) one_started (fresh_request ''GET'')))
        = Some 999"
  by (simp add: fresh_request_def returned_def httpc_request_new_def curl_easy_setopt_def
      finish_eval)

text \<open>
  C6, amended. After a successful \<^verbatim>\<open>httpc_request_finish\<close> the reason is not null, and the
  status is either one of the synthetic 408, 444, 495, 595 or, for terminal code OK, the
  engine's response code converted to \<^verbatim>\<open>int\<close>; so the status lies in [100, 599] whenever
  the engine's response code does.
\<close>

theorem httpc_request_finish_success:
  assumes "httpc_request_finish nd strerror fe st req0 = Returns (Inr (), st', req')"
  shows "reason req' \<noteq> None
         \<and> (terminal_code fe = CURLE_OK \<and> status req' = int_of_long (response_code fe)
            \<or> status req' \<in> {408, 444, 495, 595})
         \<and> (100 \<le> response_code fe \<and> response_code fe \<le> 599 \<longrightarrow>
              100 \<le> status req' \<and> status req' \<le> 599)"
  using assms
  by (auto simp add: httpc_request_finish_def curl_request_finish_def classified_def Let_def
      int_of_long_def
      split: option.splits bool.splits if_splits CURLcode.splits)

theorem httpc_request_finish_success_witness:
  "httpc_request_finish False engine_error (quiet_finish CURLE_OK 301) one_started zeroed_request
   = Returns (Inr (), one_started\<lparr>http_other_responses := 1\<rparr>,
       zeroed_request\<lparr>status := 301, reason := Some ''Ok''\<rparr>)
   \<and> reason (zeroed_request\<lparr>status := 301, reason := Some ''Ok''\<rparr>) \<noteq> None
   \<and> 100 \<le> status (zeroed_request\<lparr>status := 301, reason := Some ''Ok''\<rparr>)
   \<and> status (zeroed_request\<lparr>status := 301, reason := Some ''Ok''\<rparr>) \<le> 599"
proof -
  have run: "httpc_request_finish False engine_error (quiet_finish CURLE_OK 301) one_started
       zeroed_request
   = Returns (Inr (), one_started\<lparr>http_other_responses := 1\<rparr>,
       zeroed_request\<lparr>status := 301, reason := Some ''Ok''\<rparr>)"
    by (simp add: finish_eval)
  from httpc_request_finish_success [OF run] run show ?thesis
    by simp
qed

subsection \<open>Response headers across redirects\<close>


lemma run_events_append:
  "run_events nd (xs @ ys) req =
     (case run_events nd xs req of None \<Rightarrow> None | Some r \<Rightarrow> run_events nd ys r)"
  by (induction xs arbitrary: req) (simp_all split: option.splits)

lemma engine_step_other:
  assumes "engine_step nd ev req = Some req1" and "\<And>rc ok buf. ev \<noteq> Header_cb rc ok buf"
  shows "redirect_count req1 = redirect_count req \<and> resp_headers req1 = resp_headers req"
  using assms
  by (cases ev)
     (auto simp add: engine_step_def curl_easy_io_read_cb_def curl_easy_write_cb_def
        httpc_curl_done_handler_def Let_def split: if_splits)





lemmas engine_eval = engine_step_def curl_easy_header_cb_def curl_easy_write_cb_def
  curl_easy_io_read_cb_def httpc_curl_done_handler_def redirected_transfer_def
  fresh_request_def httpc_request_new_def curl_easy_setopt_def zeroed_request_def



lemma engine_step_header_ok:
  assumes "rc \<le> redirect_count req + 1"
  shows "\<exists>req1. engine_step False (Header_cb rc ok buf) req = Some req1
                \<and> rc \<le> redirect_count req1"
  using assms
  by (cases "redirect_count req < rc"; cases ok)
     (simp_all add: engine_step_def curl_easy_header_cb_def)

lemma engine_step_other_total:
  assumes "\<And>rc ok buf. ev \<noteq> Header_cb rc ok buf"
  shows "\<exists>req1. engine_step nd ev req = Some req1"
proof (cases ev)
  case (Header_cb rc ok buf)
  with assms show ?thesis by blast
qed (auto simp add: engine_step_def Let_def split: prod.splits read_result.splits)

lemma run_events_no_abort:
  assumes "advances_by_at_most_one p (map fst (header_events evs))"
      and "p \<le> redirect_count req0"
  shows "run_events False evs req0 \<noteq> None"
  using assms
proof (induction evs arbitrary: p req0)
  case Nil
  then show ?case by simp
next
  case (Cons ev evs)
  show ?case
  proof (cases "\<exists>rc ok buf. ev = Header_cb rc ok buf")
    case True
    then obtain rc ok buf where ev: "ev = Header_cb rc ok buf" by blast
    from Cons.prems have rc: "rc \<le> p + 1"
      and adv: "advances_by_at_most_one rc (map fst (header_events evs))"
      by (simp_all add: ev)
    from rc Cons.prems(2) have "rc \<le> redirect_count req0 + 1" by simp
    from engine_step_header_ok [OF this, of ok buf] obtain req1 where
      step: "engine_step False ev req0 = Some req1" and "rc \<le> redirect_count req1"
      unfolding ev by blast
    with Cons.IH [OF adv] show ?thesis by simp
  next
    case False
    then have other: "\<And>rc ok buf. ev \<noteq> Header_cb rc ok buf" by blast
    from engine_step_other_total [OF other] obtain req1 where
      step: "engine_step False ev req0 = Some req1" by blast
    have same: "redirect_count req1 = redirect_count req0"
      using engine_step_other [OF step other] by simp
    have he: "header_events (ev # evs) = header_events evs"
      using False by (cases ev) auto
    show ?thesis
      using Cons.IH [of p req1] Cons.prems step same he by simp
  qed
qed

text \<open>
  C9. The assertion \<^verbatim>\<open>redirect_count == req->redirect_count + 1\<close> of the header callback
  rests on the engine: if its redirect count starts at 0 and no header callback sees it
  more than one above what the previous one saw, then in a build with assertions no run of
  callbacks aborts, and whenever a header callback finds the engine's count above the
  stored one, it is the stored one plus 1.
\<close>

theorem header_cb_assertion_never_fires:
  assumes "redirect_count req0 = 0"
      and "advances_by_at_most_one 0 (map fst (header_events evs))"
  shows "run_events False evs req0 \<noteq> None
         \<and> (\<forall>n r rc alloc_ok buffer.
               n < length evs \<and> run_events False (take n evs) req0 = Some r
               \<and> evs ! n = Header_cb rc alloc_ok buffer \<and> redirect_count r < rc
               \<longrightarrow> rc = redirect_count r + 1)"
proof -
  have all: "run_events False evs req0 \<noteq> None"
    using run_events_no_abort [OF assms(2)] assms(1) by simp
  have "rc = redirect_count r + 1"
    if n: "n < length evs" and r: "run_events False (take n evs) req0 = Some r"
      and ev: "evs ! n = Header_cb rc alloc_ok buffer" and lt: "redirect_count r < rc"
    for n r rc alloc_ok buffer
  proof -
    have split: "evs = take n evs @ Header_cb rc alloc_ok buffer # drop (Suc n) evs"
      using n ev by (metis id_take_nth_drop)
    have "run_events False (take n evs @ Header_cb rc alloc_ok buffer # drop (Suc n) evs) req0
            \<noteq> None"
      using all split by simp
    then have "engine_step False (Header_cb rc alloc_ok buffer) r \<noteq> None"
      using r by (auto simp add: run_events_append split: option.splits)
    then show ?thesis
      using lt by (auto simp add: engine_step_def curl_easy_header_cb_def split: if_splits)
  qed
  with all show ?thesis by blast
qed

theorem header_cb_assertion_never_fires_witness:
  "redirect_count (fresh_request ''GET'') = 0
   \<and> advances_by_at_most_one 0 (map fst (header_events redirected_transfer))
   \<and> run_events False redirected_transfer (fresh_request ''GET'') \<noteq> None
   \<and> \<not> advances_by_at_most_one 0 (map fst (header_events [Header_cb 2 True ''HTTP/1.1 200 OK;'']))
   \<and> run_events False [Header_cb 2 True ''HTTP/1.1 200 OK;''] (fresh_request ''GET'') = None"
proof -
  have h1: "redirect_count (fresh_request ''GET'') = 0"
    by (simp add: engine_eval)
  have h2: "advances_by_at_most_one 0 (map fst (header_events redirected_transfer))"
    by (simp add: redirected_transfer_def)
  have jump: "\<not> advances_by_at_most_one 0
                 (map fst (header_events [Header_cb 2 True ''HTTP/1.1 200 OK;'']))"
    "run_events False [Header_cb 2 True ''HTTP/1.1 200 OK;''] (fresh_request ''GET'') = None"
    by (simp_all add: engine_eval)
  from header_cb_assertion_never_fires [OF h1 h2] h1 h2 jump show ?thesis
    by simp
qed

subsection \<open>Streaming upload\<close>

lemma engine_step_keeps:
  assumes "engine_step nd ev r = Some r'"
  shows "io r' = io r" and "io_send r' = io_send r"
    and "io_send_closed r \<Longrightarrow> io_send_closed r'"
    and "\<not> in_progress r \<Longrightarrow> \<not> in_progress r'"
    and "uploaded r' @ send r' = uploaded r @ send r"
    and "headers r' = headers r"
  using assms
  by (cases ev;
      auto simp add: engine_step_def curl_easy_io_read_cb_def curl_easy_write_cb_def
        curl_easy_header_cb_def httpc_curl_done_handler_def Let_def
        split: if_splits option.splits)+

lemma run_events_keeps:
  assumes "run_events nd evs r = Some r'"
  shows "io r' = io r \<and> io_send r' = io_send r
         \<and> (io_send_closed r \<longrightarrow> io_send_closed r')
         \<and> (\<not> in_progress r \<longrightarrow> \<not> in_progress r')
         \<and> uploaded r' @ send r' = uploaded r @ send r
         \<and> headers r' = headers r"
  using assms
proof (induction evs arbitrary: r)
  case Nil
  then show ?case by simp
next
  case (Cons ev evs)
  from Cons.prems obtain r1 where
    step: "engine_step nd ev r = Some r1" and rest: "run_events nd evs r1 = Some r'"
    by (auto split: option.splits)
  show ?case
    using Cons.IH [OF rest] engine_step_keeps [OF step] by auto
qed

lemma io_write_after_checks:
  assumes "io req" "io_send req" "in_progress req" "\<not> io_send_closed req"
      and "io_write_drain nd t ws req = Returns (d, r1, ws1)"
  shows "httpc_request_io_write nd ws ptr t req =
     (case d of
        Some e \<Rightarrow> Returns (Inl e, r1)
      | None \<Rightarrow>
          if send r1 \<noteq> [] then
            (if in_progress r1 then Returns (Inl TimedOut, r1) else Returns (Inr 0, r1))
          else
            (case ws1 of
               [] \<Rightarrow> Parked
             | w # _ \<Rightarrow>
                 (case fiber_cond_wait_deadline nd w
                         (curl_easy_setopt CURLPAUSE_SEND_CONT
                            (if ptr \<noteq> [] then r1\<lparr>send := ptr\<rparr>
                             else r1\<lparr>io_send_closed := True\<rparr>)) of
                    Aborted \<Rightarrow> Aborted
                  | Parked \<Rightarrow> Parked
                  | Returns (_, r4) \<Rightarrow>
                      if send r4 \<noteq> [] then Returns (Inr 0, r4\<lparr>send := []\<rparr>)
                      else Returns (Inr (length ptr), r4))))"
  using assms by (simp add: httpc_request_io_write_def Let_def split: option.splits)

lemmas io_eval = httpc_request_io_write_def fiber_cond_wait_deadline_def engine_step_def
  curl_easy_io_read_cb_def httpc_curl_done_handler_def uploading_request_def httpc_set_io_def
  fresh_request_def httpc_request_new_def curl_easy_setopt_def zeroed_request_def upload_open_def

lemma uploading_request_open:
  "upload_open uploading_request" "upload_open (uploading_request\<lparr>send := ''ab''\<rparr>)"
  by (simp_all add: io_eval)

text \<open>
  C5. The claim says that with unsent bytes in \<open>send\<close> the call reports \<open>TimedOut\<close> when
  the deadline expires with the transfer in progress, and returns 0 when the transfer has
  ended. The code does otherwise: each round of its loop waits with the deadline and then
  once more without any (\<^verbatim>\<open>fiber_cond_wait\<close>). Let the call pass its entry checks with
  unsent bytes and time left, and let the fiber be woken from the first wait, whatever the
  engine did meanwhile (it may have ended the transfer). If \<open>io_send_cond\<close> is not signalled
  again, the call does not return: it stays in the second wait, deadline or not. The same
  holds after the second wait of the round, when bytes are still queued and the transfer
  still runs. (\<open>ws\<close> lists all the wake-ups to come.)
\<close>

theorem httpc_request_io_write_parks_after_wake:
  assumes "upload_open req" and "send req \<noteq> []" and "0 < t"
      and "run_events nd evs req = Some req1"
  shows "httpc_request_io_write nd [(evs, Woken)] ptr t req = Parked
         \<and> (\<forall>evs2 w req2.
               run_events nd evs2 req1 = Some req2 \<and> in_progress req2 \<and> send req2 \<noteq> [] \<longrightarrow>
               httpc_request_io_write nd [(evs, Woken), (evs2, w)] ptr t req = Parked)"
proof -
  from assms(1) have g: "io req" "io_send req" "in_progress req" "\<not> io_send_closed req"
    by (simp_all add: upload_open_def)
  have one: "io_write_drain nd t [(evs, Woken)] req = Parked"
    using g assms(2-4) by (simp add: fiber_cond_wait_deadline_def)
  have two: "io_write_drain nd t [(evs, Woken), (evs2, w)] req = Parked"
    if "run_events nd evs2 req1 = Some req2" and "in_progress req2" and "send req2 \<noteq> []"
    for evs2 w req2
    using g assms(2-4) that by (simp add: fiber_cond_wait_deadline_def)
  show ?thesis
    using g one two by (simp add: httpc_request_io_write_def)
qed

theorem httpc_request_io_write_parks_after_wake_witness:
  "upload_open (uploading_request\<lparr>send := ''ab''\<rparr>)
   \<and> httpc_request_io_write False [([Transfer_done CURLE_COULDNT_CONNECT], Woken)] ''cd'' 1
        (uploading_request\<lparr>send := ''ab''\<rparr>) = Parked
   \<and> httpc_request_io_write False [([], Woken), ([], Deadline)] ''cd'' 1
        (uploading_request\<lparr>send := ''ab''\<rparr>) = Parked
   \<and> httpc_request_io_write False [([], Deadline)] ''cd'' 1 (uploading_request\<lparr>send := ''ab''\<rparr>)
       = Returns (Inl TimedOut, uploading_request\<lparr>send := ''ab''\<rparr>)
   \<and> httpc_request_io_write False
        [([Transfer_done CURLE_COULDNT_CONNECT], Woken), ([], Woken)] ''cd'' 1
        (uploading_request\<lparr>send := ''ab''\<rparr>)
       = Returns (Inr 0, uploading_request\<lparr>send := ''ab'', code := CURLE_COULDNT_CONNECT,
                    in_progress := False, io_send_closed := True\<rparr>)"
proof -
  have o: "upload_open (uploading_request\<lparr>send := ''ab''\<rparr>)"
    and q: "send (uploading_request\<lparr>send := ''ab''\<rparr>) \<noteq> []"
    by (simp_all add: io_eval)
  have r1: "run_events False [Transfer_done CURLE_COULDNT_CONNECT]
              (uploading_request\<lparr>send := ''ab''\<rparr>)
            = Some (uploading_request\<lparr>send := ''ab'', code := CURLE_COULDNT_CONNECT,
                      in_progress := False, io_send_closed := True\<rparr>)"
    by (simp add: io_eval)
  have r2: "run_events False [] (uploading_request\<lparr>send := ''ab''\<rparr>)
            = Some (uploading_request\<lparr>send := ''ab''\<rparr>)"
    by simp
  have t: "(0::real) < 1" by simp
  note a = httpc_request_io_write_parks_after_wake [OF o q t r1, of "''cd''"]
  note b = httpc_request_io_write_parks_after_wake [OF o q t r2, of "''cd''"]
  have ended: "httpc_request_io_write False [([Transfer_done CURLE_COULDNT_CONNECT], Woken)]
        ''cd'' 1 (uploading_request\<lparr>send := ''ab''\<rparr>) = Parked"
    using a by simp
  have late: "httpc_request_io_write False [([], Woken), ([], Deadline)] ''cd'' 1
        (uploading_request\<lparr>send := ''ab''\<rparr>) = Parked"
    using b r2 o q by (simp add: upload_open_def)
  have rest: "httpc_request_io_write False [([], Deadline)] ''cd'' 1
        (uploading_request\<lparr>send := ''ab''\<rparr>)
       = Returns (Inl TimedOut, uploading_request\<lparr>send := ''ab''\<rparr>)"
    "httpc_request_io_write False
        [([Transfer_done CURLE_COULDNT_CONNECT], Woken), ([], Woken)] ''cd'' 1
        (uploading_request\<lparr>send := ''ab''\<rparr>)
       = Returns (Inr 0, uploading_request\<lparr>send := ''ab'', code := CURLE_COULDNT_CONNECT,
                    in_progress := False, io_send_closed := True\<rparr>)"
    by (simp_all add: io_eval)
  from o ended late rest show ?thesis by simp
qed

text \<open>
  C10. Once \<^verbatim>\<open>httpc_request_io_write\<close> has copied the caller's bytes into \<open>send\<close> and asked
  the engine to resume, it waits once. If \<open>send\<close> is not empty after that wait, the call
  resets \<open>send\<close> and returns 0, whether the wait ended by the deadline with the transfer
  still in progress or the transfer ended: the caller sees the same 0 and no \<open>TimedOut\<close>.
  The bytes the engine took and the bytes dropped make up the caller's bytes, and the read
  callback has nothing left to hand over: the dropped bytes are never sent.
\<close>

theorem httpc_request_io_write_discards_unsent:
  assumes "upload_open req" and "ptr \<noteq> []"
      and "io_write_drain nd t ws req = Returns (None, req1, w # ws1)"
      and "send req1 = []"
      and "run_events nd (fst w) (curl_easy_setopt CURLPAUSE_SEND_CONT (req1\<lparr>send := ptr\<rparr>))
             = Some req4"
      and "send req4 \<noteq> []"
  shows "httpc_request_io_write nd ws ptr t req = Returns (Inr 0, req4\<lparr>send := []\<rparr>)
         \<and> uploaded req4 @ send req4 = uploaded req1 @ ptr
         \<and> (\<forall>n. curl_easy_io_read_cb n (req4\<lparr>send := []\<rparr>)
                 = (if io_send_closed req4 then Read_bytes [] else CURL_READFUNC_PAUSE,
                    req4\<lparr>send := []\<rparr>))"
proof -
  from assms(1) have g: "io req" "io_send req" "in_progress req" "\<not> io_send_closed req"
    by (simp_all add: upload_open_def)
  have a: "httpc_request_io_write nd ws ptr t req = Returns (Inr 0, req4\<lparr>send := []\<rparr>)"
    using io_write_after_checks [OF g assms(3), of ptr] assms(2,4,5,6)
    by (simp add: fiber_cond_wait_deadline_def)
  have b: "uploaded req4 @ send req4 = uploaded req1 @ ptr"
    using run_events_keeps [OF assms(5)] by (simp add: curl_easy_setopt_def)
  have c: "curl_easy_io_read_cb n (req4\<lparr>send := []\<rparr>)
                 = (if io_send_closed req4 then Read_bytes [] else CURL_READFUNC_PAUSE,
                    req4\<lparr>send := []\<rparr>)" for n
    by (simp add: curl_easy_io_read_cb_def)
  from a b c show ?thesis by blast
qed

theorem httpc_request_io_write_discards_unsent_witness:
  "upload_open uploading_request
   \<and> httpc_request_io_write False [([Read_cb 2], Deadline)] ''abcd'' 1 uploading_request
       = Returns (Inr 0, (curl_easy_setopt CURLPAUSE_SEND_CONT uploading_request)
                           \<lparr>uploaded := ''ab'', send := []\<rparr>)
   \<and> httpc_request_io_write False
         [([Read_cb 2, Transfer_done CURLE_COULDNT_CONNECT], Woken)] ''abcd'' 1 uploading_request
       = Returns (Inr 0, (curl_easy_setopt CURLPAUSE_SEND_CONT uploading_request)
                           \<lparr>uploaded := ''ab'', send := [], code := CURLE_COULDNT_CONNECT,
                             in_progress := False, io_send_closed := True\<rparr>)"
proof -
  have d: "io_write_drain False 1 [([Read_cb 2], Deadline)] uploading_request
             = Returns (None, uploading_request, [([Read_cb 2], Deadline)])"
    by (simp add: io_eval)
  have e: "send uploading_request = []"
    by (simp add: io_eval)
  have r: "run_events False (fst ([Read_cb 2], Deadline))
             (curl_easy_setopt CURLPAUSE_SEND_CONT (uploading_request\<lparr>send := ''abcd''\<rparr>))
           = Some ((curl_easy_setopt CURLPAUSE_SEND_CONT uploading_request)
                     \<lparr>uploaded := ''ab'', send := ''cd''\<rparr>)"
    by (simp add: io_eval)
  have first: "httpc_request_io_write False [([Read_cb 2], Deadline)] ''abcd'' 1 uploading_request
       = Returns (Inr 0, (curl_easy_setopt CURLPAUSE_SEND_CONT uploading_request)
                           \<lparr>uploaded := ''ab'', send := []\<rparr>)"
    using httpc_request_io_write_discards_unsent [OF uploading_request_open(1) _ d e r]
    by simp
  have second: "httpc_request_io_write False
         [([Read_cb 2, Transfer_done CURLE_COULDNT_CONNECT], Woken)] ''abcd'' 1 uploading_request
       = Returns (Inr 0, (curl_easy_setopt CURLPAUSE_SEND_CONT uploading_request)
                           \<lparr>uploaded := ''ab'', send := [], code := CURLE_COULDNT_CONNECT,
                             in_progress := False, io_send_closed := True\<rparr>)"
    by (simp add: io_eval)
  from first second uploading_request_open(1) show ?thesis by simp
qed

subsection \<open>Automatic headers at the start\<close>



















end
